theory Spec2Isabelle
  imports Main
begin

section \<open>The download repositories of doccano\<close>

text \<open>
  A shallow embedding of \<^verbatim>\<open>backend/api/views/download/repositories.py\<close> and
  \<^verbatim>\<open>data.py\<close>. The Django models (\<^verbatim>\<open>Example\<close>, \<^verbatim>\<open>Span\<close>,
  \<^verbatim>\<open>AnnotationRelations\<close>, \<^verbatim>\<open>Project\<close>) live in another module; their rows are
  records holding the fields that the repositories read. A foreign key that the code
  follows (\<^verbatim>\<open>a.user.username\<close>, \<^verbatim>\<open>a.label.text\<close>, \<^verbatim>\<open>a.type.name\<close>) is stored
  as the value it is followed to. A query set is the list of its rows in retrieval order.
\<close>

subsection \<open>Rows of the persistence layer\<close>

text \<open>A category annotation: \<^verbatim>\<open>a.user.username\<close> and \<^verbatim>\<open>a.label.text\<close>.\<close>

record Category =
  category_user :: string
  category_label :: string

text \<open>A span annotation: its annotator, its two offsets and \<^verbatim>\<open>label.text\<close>.\<close>

record Span =
  span_user :: string
  start_offset :: int
  end_offset :: int
  span_label :: string

text \<open>A free-text annotation: \<^verbatim>\<open>a.user.username\<close> and \<^verbatim>\<open>a.text\<close>.\<close>

record TextLabel =
  textlabel_user :: string
  textlabel_text :: string

text \<open>
  An example (document) with its related managers \<^verbatim>\<open>categories\<close>, \<^verbatim>\<open>spans\<close> and
  \<^verbatim>\<open>texts\<close>. \<^verbatim>\<open>annotations_approved_by\<close> is a nullable reference to a user.
\<close>

record Example =
  example_id :: int
  example_project :: int
  example_text :: string
  filename :: string
  meta :: "(string \<times> string) list"
  annotations_approved_by :: "string option"
  categories :: "Category list"
  spans :: "Span list"
  texts :: "TextLabel list"

text \<open>
  Modelled from the spec: the row of a stored relation, whose model class is declared
  outside the files at hand. It references two spans by identifier, carries the name of its
  relation type and its annotator, and belongs to a project (the spec speaks of the relations
  stored for the project).
\<close>

record AnnotationRelations =
  annotation_id_1 :: int
  annotation_id_2 :: int
  type_name :: string
  relation_user :: string
  relation_project :: int

record Project =
  project_id :: int
  collaborative_annotation :: bool

text \<open>
  The data source: \<^verbatim>\<open>Example.objects\<close>, \<^verbatim>\<open>Span.objects\<close> indexed by primary key (so
  that an identifier names at most one span) and \<^verbatim>\<open>AnnotationRelations.objects\<close>.
\<close>

record Database =
  example_objects :: "Example list"
  span_objects :: "int \<rightharpoonup> Span"
  annotation_relations_objects :: "AnnotationRelations list"

subsection \<open>Records\<close>

text \<open>
  A label value is a bare string (categories, transcripts) or the triple of a span.
  A relation is exported as a 5-tuple.
\<close>

datatype label_value = Text string | Triple int int string

type_synonym relation_tuple = "int \<times> string \<times> int \<times> string \<times> string"

record Record =
  record_id :: int
  data :: string
  label :: "label_value list"
  annotation_relations :: "relation_tuple list"
  user :: string
  metadata :: "(string \<times> string) list"

text \<open>\<^verbatim>\<open>Record(id, data, label, user, metadata)\<close>: the relations default to \<^verbatim>\<open>[]\<close>.\<close>

definition Record_default ::
  "int \<Rightarrow> string \<Rightarrow> label_value list \<Rightarrow> string \<Rightarrow> (string \<times> string) list \<Rightarrow> Record" where
  "Record_default i d l u m =
     \<lparr>record_id = i, data = d, label = l, annotation_relations = [], user = u, metadata = m\<rparr>"

subsection \<open>Errors and dictionaries\<close>

datatype error = AttributeError | DoesNotExist | KeyError

text \<open>
  A dictionary keeps its keys in insertion order. A \<^verbatim>\<open>defaultdict(list)\<close> answers a missing
  key with the empty list (it also stores the key; the repositories never read such a
  dictionary again, so the model leaves it unchanged), a plain \<^verbatim>\<open>dict\<close> raises
  \<^verbatim>\<open>KeyError\<close>.
\<close>

datatype 'v dict = DefaultDict "(string \<times> 'v list) list" | Dict "(string \<times> 'v list) list"

fun items :: "'v dict \<Rightarrow> (string \<times> 'v list) list" where
  "items (DefaultDict kvs) = kvs"
| "items (Dict kvs) = kvs"

definition values_of :: "'v dict \<Rightarrow> 'v list list" where
  "values_of d = map snd (items d)"

definition len :: "'v dict \<Rightarrow> nat" where
  "len d = length (items d)"

fun getitem :: "'v dict \<Rightarrow> string \<Rightarrow> error + 'v list" where
  "getitem (DefaultDict kvs) k = (case map_of kvs k of None \<Rightarrow> Inr [] | Some vs \<Rightarrow> Inr vs)"
| "getitem (Dict kvs) k = (case map_of kvs k of None \<Rightarrow> Inl KeyError | Some vs \<Rightarrow> Inr vs)"

text \<open>
  \<^verbatim>\<open>d[k].append(v)\<close> on the entries of a \<^verbatim>\<open>defaultdict(list)\<close>: the first use of a key
  adds it behind the others with the bucket \<^verbatim>\<open>[v]\<close>.
\<close>

fun append_to :: "string \<Rightarrow> 'v \<Rightarrow> (string \<times> 'v list) list \<Rightarrow> (string \<times> 'v list) list" where
  "append_to k v [] = [(k, [v])]"
| "append_to k v ((k', vs) # kvs) =
     (if k' = k then (k', vs @ [v]) # kvs else (k', vs) # append_to k v kvs)"

subsection \<open>The repositories\<close>

datatype repository =
    FileRepository
  | Speech2TextRepository
  | TextClassificationRepository
  | SequenceLabelingRepository
  | Seq2seqRepository

text \<open>\<^verbatim>\<open>label_per_user\<close> of each class: one scan of the annotations in retrieval order.\<close>

definition label_per_user_categories :: "Example \<Rightarrow> label_value dict" where
  "label_per_user_categories example =
     DefaultDict (foldl (\<lambda>d a. append_to (category_user a) (Text (category_label a)) d)
                    [] (categories example))"

definition label_per_user_texts :: "Example \<Rightarrow> label_value dict" where
  "label_per_user_texts example =
     DefaultDict (foldl (\<lambda>d a. append_to (textlabel_user a) (Text (textlabel_text a)) d)
                    [] (texts example))"

definition label_per_user_spans :: "Example \<Rightarrow> label_value dict" where
  "label_per_user_spans doc =
     DefaultDict (foldl (\<lambda>d a. append_to (span_user a)
                                (Triple (start_offset a) (end_offset a) (span_label a)) d)
                    [] (spans doc))"

fun label_per_user :: "repository \<Rightarrow> Example \<Rightarrow> label_value dict" where
  "label_per_user FileRepository = label_per_user_categories"
| "label_per_user Speech2TextRepository = label_per_user_texts"
| "label_per_user TextClassificationRepository = label_per_user_categories"
| "label_per_user SequenceLabelingRepository = label_per_user_spans"
| "label_per_user Seq2seqRepository = label_per_user_texts"

text \<open>\<^verbatim>\<open>reduce_user\<close>: a plain dictionary with the one key \<^verbatim>\<open>'all'\<close>.\<close>

definition reduce_user :: "'v dict \<Rightarrow> 'v dict" where
  "reduce_user d = Dict [(''all'', concat (values_of d))]"

text \<open>\<^verbatim>\<open>Span.objects.get(id=i)\<close> raises \<^verbatim>\<open>DoesNotExist\<close> when no span has the identifier.\<close>

definition Span_get :: "Database \<Rightarrow> int \<Rightarrow> error + Span" where
  "Span_get db i = (case span_objects db i of None \<Rightarrow> Inl DoesNotExist | Some s \<Rightarrow> Inr s)"

text \<open>The tuple that the loop of \<^verbatim>\<open>annotation_relations_per_user\<close> builds for one relation.\<close>

definition annotation_relation :: "Database \<Rightarrow> AnnotationRelations \<Rightarrow> error + relation_tuple" where
  "annotation_relation db a =
     (case Span_get db (annotation_id_1 a) of
        Inl e \<Rightarrow> Inl e
      | Inr span_1 \<Rightarrow>
          (case Span_get db (annotation_id_2 a) of
             Inl e \<Rightarrow> Inl e
           | Inr span_2 \<Rightarrow>
               Inr (start_offset span_1, span_label span_1,
                    start_offset span_2, span_label span_2, type_name a)))"

fun relations_loop ::
  "Database \<Rightarrow> AnnotationRelations list \<Rightarrow> (string \<times> relation_tuple list) list
     \<Rightarrow> error + (string \<times> relation_tuple list) list" where
  "relations_loop db [] d = Inr d"
| "relations_loop db (a # rest) d =
     (case annotation_relation db a of
        Inl e \<Rightarrow> Inl e
      | Inr t \<Rightarrow> relations_loop db rest (append_to (relation_user a) t d))"

text \<open>
  Only \<^verbatim>\<open>SequenceLabelingRepository\<close> defines \<^verbatim>\<open>annotation_relations_per_user\<close>; on an
  object of another class the attribute lookup fails. The method reads
  \<^verbatim>\<open>AnnotationRelations.objects.all()\<close>, every stored relation.
\<close>

fun annotation_relations_per_user :: "repository \<Rightarrow> Database \<Rightarrow> error + relation_tuple dict" where
  "annotation_relations_per_user SequenceLabelingRepository db =
     (case relations_loop db (annotation_relations_objects db) [] of
        Inl e \<Rightarrow> Inl e
      | Inr d \<Rightarrow> Inr (DefaultDict d))"
| "annotation_relations_per_user _ db = Inl AttributeError"

text \<open>\<^verbatim>\<open>s.split(sep)\<close> for a one-character separator, and \<^verbatim>\<open>str(filename).split('/')[-1]\<close>.\<close>

fun split :: "char \<Rightarrow> string \<Rightarrow> string list" where
  "split sep [] = [[]]"
| "split sep (c # cs) =
     (if c = sep then [] # split sep cs
      else (case split sep cs of [] \<Rightarrow> [[c]] | w # ws \<Rightarrow> (c # w) # ws))"

definition file_data :: "Example \<Rightarrow> string" where
  "file_data example = last (split CHR ''/'' (filename example))"

text \<open>
  A generator is the list of the records it yields and the error that ended it, if one did.
\<close>

type_synonym stream = "Record list \<times> error option"

text \<open>\<^verbatim>\<open>FileRepository.list\<close>: the body of the loop for one example, then the loop.\<close>

definition file_example :: "repository \<Rightarrow> Project \<Rightarrow> Example \<Rightarrow> Record list" where
  "file_example repo project example =
     (let label_per_user0 = label_per_user repo example;
          label_per_user1 = (if collaborative_annotation project
                             then reduce_user label_per_user0 else label_per_user0)
      in map (\<lambda>(u, l).
                Record_default (example_id example) (file_data example) l u (meta example))
             (items label_per_user1)
         @ (if len label_per_user1 = 0
            then [Record_default (example_id example) (file_data example) [] ''unknown'' []]
            else []))"

text \<open>\<^verbatim>\<open>TextRepository.list\<close>: the loop over \<^verbatim>\<open>label_per_user.items()\<close>.\<close>

fun yield_items ::
  "Example \<Rightarrow> relation_tuple dict \<Rightarrow> (string \<times> label_value list) list \<Rightarrow> stream" where
  "yield_items doc relations_per_user [] = ([], None)"
| "yield_items doc relations_per_user ((u, l) # rest) =
     (case getitem relations_per_user u of
        Inl e \<Rightarrow> ([], Some e)
      | Inr relations \<Rightarrow>
          (case yield_items doc relations_per_user rest of
             (records, e) \<Rightarrow>
               (\<lparr>record_id = example_id doc, data = example_text doc, label = l,
                 annotation_relations = relations, user = u, metadata = meta doc\<rparr>
                # records, e)))"

text \<open>The body of the loop of \<^verbatim>\<open>TextRepository.list\<close> for one document.\<close>

definition text_doc :: "repository \<Rightarrow> Database \<Rightarrow> Project \<Rightarrow> Example \<Rightarrow> stream" where
  "text_doc repo db project doc =
     (let label_per_user0 = label_per_user repo doc
      in case annotation_relations_per_user repo db of
           Inl e \<Rightarrow> ([], Some e)
         | Inr annotation_relations_per_user0 \<Rightarrow>
             (let label_per_user1 = (if collaborative_annotation project
                                     then reduce_user label_per_user0 else label_per_user0);
                  annotation_relations_per_user1 =
                    (if collaborative_annotation project
                     then reduce_user annotation_relations_per_user0
                     else annotation_relations_per_user0)
              in case yield_items doc annotation_relations_per_user1 (items label_per_user1) of
                   (records, Some e) \<Rightarrow> (records, Some e)
                 | (records, None) \<Rightarrow>
                     (if len label_per_user1 = 0
                      then (records @ [Record_default (example_id doc) (example_text doc)
                                         [] ''unknown'' []], None)
                      else (records, None))))"

fun text_loop :: "repository \<Rightarrow> Database \<Rightarrow> Project \<Rightarrow> Example list \<Rightarrow> stream" where
  "text_loop repo db project [] = ([], None)"
| "text_loop repo db project (doc # docs) =
     (case text_doc repo db project doc of
        (records, Some e) \<Rightarrow> (records, Some e)
      | (records, None) \<Rightarrow>
          (case text_loop repo db project docs of
             (later, e) \<Rightarrow> (records @ later, e)))"

text \<open>
  The documents of the project (\<^verbatim>\<open>project.examples.all()\<close>,
  \<^verbatim>\<open>Example.objects.filter(project=self.project)\<close>), and
  \<^verbatim>\<open>exclude(annotations_approved_by=None)\<close> when only approved ones are exported.
\<close>

definition docs :: "Database \<Rightarrow> Project \<Rightarrow> bool \<Rightarrow> Example list" where
  "docs db project export_approved =
     (let examples = filter (\<lambda>d. example_project d = project_id project) (example_objects db)
      in if export_approved
         then filter (\<lambda>d. annotations_approved_by d \<noteq> None) examples
         else examples)"

fun list_records :: "repository \<Rightarrow> Database \<Rightarrow> Project \<Rightarrow> bool \<Rightarrow> stream" where
  "list_records FileRepository db project export_approved =
     (concat (map (file_example FileRepository project) (docs db project export_approved)), None)"
| "list_records Speech2TextRepository db project export_approved =
     (concat (map (file_example Speech2TextRepository project) (docs db project export_approved)),
      None)"
| "list_records repo db project export_approved =
     text_loop repo db project (docs db project export_approved)"

subsection \<open>Notions used in the statements\<close>

text \<open>The bucket of a key in the entries of a dictionary, empty for a key that is absent.\<close>

definition bucket :: "(string \<times> 'v list) list \<Rightarrow> string \<Rightarrow> 'v list" where
  "bucket kvs k = (case map_of kvs k of None \<Rightarrow> [] | Some vs \<Rightarrow> vs)"

text \<open>
  The annotations that \<^verbatim>\<open>label_per_user\<close> of a repository scans in a document, each as
  its annotator and its label value, in retrieval order.
\<close>

fun annotations_of :: "repository \<Rightarrow> Example \<Rightarrow> (string \<times> label_value) list" where
  "annotations_of FileRepository ex =
     map (\<lambda>a. (category_user a, Text (category_label a))) (categories ex)"
| "annotations_of Speech2TextRepository ex =
     map (\<lambda>a. (textlabel_user a, Text (textlabel_text a))) (texts ex)"
| "annotations_of TextClassificationRepository ex =
     map (\<lambda>a. (category_user a, Text (category_label a))) (categories ex)"
| "annotations_of SequenceLabelingRepository ex =
     map (\<lambda>a. (span_user a, Triple (start_offset a) (end_offset a) (span_label a))) (spans ex)"
| "annotations_of Seq2seqRepository ex =
     map (\<lambda>a. (textlabel_user a, Text (textlabel_text a))) (texts ex)"

text \<open>The elements of a list in the order of their first occurrence.\<close>

definition first_occurrences :: "'a list \<Rightarrow> 'a list" where
  "first_occurrences xs = rev (remdups (rev xs))"

text \<open>A stored relation resolves when both of its span identifiers name a stored span.\<close>

definition resolves :: "Database \<Rightarrow> AnnotationRelations \<Rightarrow> bool" where
  "resolves db a \<longleftrightarrow>
     span_objects db (annotation_id_1 a) \<noteq> None \<and> span_objects db (annotation_id_2 a) \<noteq> None"

subsection \<open>Sample data\<close>

text \<open>
  Two projects with the identifier 1, one keeping annotators apart and one pooling them;
  the document of the spec's scenario, a document without annotations, two annotated
  documents with spans, and relations that resolve or dangle.
\<close>

definition separate_project :: Project where
  "separate_project = \<lparr>project_id = 1, collaborative_annotation = False\<rparr>"

definition pooled_project :: Project where
  "pooled_project = \<lparr>project_id = 1, collaborative_annotation = True\<rparr>"

definition hello :: Example where
  "hello = \<lparr>example_id = 1, example_project = 1, example_text = ''Hello'',
             filename = ''texts/hello.txt'', meta = [(''lang'', ''en'')],
             annotations_approved_by = None,
             categories = [\<lparr>category_user = ''alice'', category_label = ''greeting''\<rparr>,
                           \<lparr>category_user = ''bob'', category_label = ''salutation''\<rparr>],
             spans = [], texts = []\<rparr>"

definition hello_db :: Database where
  "hello_db = \<lparr>example_objects = [hello], span_objects = Map.empty,
                annotation_relations_objects = []\<rparr>"

definition blank :: Example where
  "blank = \<lparr>example_id = 3, example_project = 1, example_text = ''Nothing yet'',
             filename = ''audio/blank.wav'', meta = [(''source'', ''web'')],
             annotations_approved_by = None, categories = [], spans = [], texts = []\<rparr>"

definition blank_db :: Database where
  "blank_db = \<lparr>example_objects = [blank], span_objects = Map.empty,
                annotation_relations_objects = []\<rparr>"

definition span_per :: Span where
  "span_per = \<lparr>span_user = ''alice'', start_offset = 5, end_offset = 10, span_label = ''PER''\<rparr>"

definition span_org :: Span where
  "span_org = \<lparr>span_user = ''alice'', start_offset = 12, end_offset = 16, span_label = ''ORG''\<rparr>"

definition span_name :: Span where
  "span_name = \<lparr>span_user = ''alice'', start_offset = 0, end_offset = 5, span_label = ''PER''\<rparr>"

definition span_city :: Span where
  "span_city = \<lparr>span_user = ''alice'', start_offset = 0, end_offset = 5, span_label = ''LOC''\<rparr>"

definition span_firm :: Span where
  "span_firm = \<lparr>span_user = ''alice'', start_offset = 9, end_offset = 13, span_label = ''ORG''\<rparr>"

definition span_table :: "int \<rightharpoonup> Span" where
  "span_table = [10 \<mapsto> span_per, 11 \<mapsto> span_org, 12 \<mapsto> span_name]"

definition wide_span_table :: "int \<rightharpoonup> Span" where
  "wide_span_table = [10 \<mapsto> span_per, 11 \<mapsto> span_org, 20 \<mapsto> span_city, 21 \<mapsto> span_firm]"

definition acme :: Example where
  "acme = \<lparr>example_id = 1, example_project = 1, example_text = ''Meet Alice, Acme'',
            filename = '''', meta = [(''lang'', ''en'')], annotations_approved_by = None,
            categories = [], spans = [span_per, span_org], texts = []\<rparr>"

definition memo :: Example where
  "memo = \<lparr>example_id = 2, example_project = 1, example_text = ''Alice'',
            filename = '''', meta = [], annotations_approved_by = Some ''admin'',
            categories = [],
            spans = [span_name], texts = []\<rparr>"

definition works_for :: AnnotationRelations where
  "works_for = \<lparr>annotation_id_1 = 10, annotation_id_2 = 11, type_name = ''works_for'',
                 relation_user = ''alice'', relation_project = 1\<rparr>"

definition dangling :: AnnotationRelations where
  "dangling = \<lparr>annotation_id_1 = 10, annotation_id_2 = 99, type_name = ''works_for'',
                relation_user = ''alice'', relation_project = 1\<rparr>"

text \<open>A document of project 2 with two spans of alice, and her relation between them.\<close>

definition branch :: Example where
  "branch = \<lparr>example_id = 8, example_project = 2, example_text = ''Paris by Acme'',
              filename = '''', meta = [], annotations_approved_by = None,
              categories = [], spans = [span_city, span_firm], texts = []\<rparr>"

definition foreign :: AnnotationRelations where
  "foreign = \<lparr>annotation_id_1 = 20, annotation_id_2 = 21, type_name = ''hosts'',
               relation_user = ''alice'', relation_project = 2\<rparr>"

definition acme_db :: Database where
  "acme_db = \<lparr>example_objects = [acme, memo], span_objects = span_table,
               annotation_relations_objects = [works_for]\<rparr>"

definition broken_db :: Database where
  "broken_db = \<lparr>example_objects = [acme], span_objects = span_table,
                 annotation_relations_objects = [dangling]\<rparr>"

definition shared_db :: Database where
  "shared_db = \<lparr>example_objects = [acme, branch], span_objects = wide_span_table,
                 annotation_relations_objects = [works_for, foreign]\<rparr>"

definition idle_db :: Database where
  "idle_db = \<lparr>example_objects = [], span_objects = span_table,
               annotation_relations_objects = [dangling]\<rparr>"

text \<open>
  A document that bob annotated before alice, and a document that only bob annotated and
  that is the only approved one of its data source.
\<close>

definition span_note :: Span where
  "span_note = \<lparr>span_user = ''bob'', start_offset = 0, end_offset = 4, span_label = ''PER''\<rparr>"

definition panel :: Example where
  "panel = \<lparr>example_id = 4, example_project = 1, example_text = ''Bob: Alice, Acme'',
             filename = '''', meta = [], annotations_approved_by = None,
             categories = [], spans = [span_note, span_per, span_org], texts = []\<rparr>"

definition reviewed :: Example where
  "reviewed = \<lparr>example_id = 5, example_project = 1, example_text = ''Bob'',
                filename = '''', meta = [], annotations_approved_by = Some ''admin'',
                categories = [], spans = [span_note], texts = []\<rparr>"

definition panel_span_table :: "int \<rightharpoonup> Span" where
  "panel_span_table = [10 \<mapsto> span_per, 11 \<mapsto> span_org, 13 \<mapsto> span_note]"

definition panel_db :: Database where
  "panel_db = \<lparr>example_objects = [panel], span_objects = panel_span_table,
                annotation_relations_objects = [works_for]\<rparr>"

definition outsider_db :: Database where
  "outsider_db = \<lparr>example_objects = [acme, reviewed], span_objects = panel_span_table,
                   annotation_relations_objects = [works_for]\<rparr>"

text \<open>The records expected for alice from the two documents of \<open>acme_db\<close>.\<close>

definition acme_record :: Record where
  "acme_record = \<lparr>record_id = 1, data = ''Meet Alice, Acme'',
      label = [Triple 5 10 ''PER'', Triple 12 16 ''ORG''],
      annotation_relations = [(5, ''PER'', 12, ''ORG'', ''works_for'')],
      user = ''alice'', metadata = [(''lang'', ''en'')]\<rparr>"

definition memo_record :: Record where
  "memo_record = \<lparr>record_id = 2, data = ''Alice'', label = [Triple 0 5 ''PER''],
      annotation_relations = [(5, ''PER'', 12, ''ORG'', ''works_for'')],
      user = ''alice'', metadata = []\<rparr>"

section \<open>Properties\<close>

subsection \<open>Evaluation of the sample data\<close>

lemmas inputs =
  separate_project_def pooled_project_def hello_def hello_db_def blank_def blank_db_def
  span_per_def span_org_def span_name_def span_city_def span_firm_def span_table_def
  wide_span_table_def acme_def memo_def branch_def works_for_def dangling_def
  foreign_def acme_db_def broken_db_def shared_db_def idle_db_def

lemmas code =
  docs_def text_doc_def file_example_def file_data_def len_def values_of_def reduce_user_def
  Record_default_def label_per_user_categories_def label_per_user_texts_def
  label_per_user_spans_def Span_get_def annotation_relation_def

subsection \<open>Dictionaries\<close>

lemma map_of_append_to:
  "map_of (append_to k v d) u = (if u = k then Some (bucket d k @ [v]) else map_of d u)"
  by (induction d) (auto simp: bucket_def)

lemma bucket_append_to:
  "bucket (append_to k v d) u = bucket d u @ (if u = k then [v] else [])"
  by (simp add: bucket_def map_of_append_to)

lemma append_to_nonempty:
  "\<forall>(k', vs) \<in> set d. vs \<noteq> [] \<Longrightarrow> \<forall>(k', vs) \<in> set (append_to k v d). vs \<noteq> []"
  by (induction d) (auto split: if_splits)

lemma append_to_not_Nil: "append_to k v d \<noteq> []"
  by (cases d) (auto split: if_splits)

subsection \<open>One document\<close>

lemma yield_items_DefaultDict:
  "yield_items doc (DefaultDict kvs) its =
     (map (\<lambda>(u, l). \<lparr>record_id = example_id doc, data = example_text doc, label = l,
                       annotation_relations = bucket kvs u, user = u, metadata = meta doc\<rparr>) its,
      None)"
  by (induction its) (auto simp: bucket_def split: option.splits)

lemma yield_items_reduce_user:
  "yield_items doc (reduce_user d) (items (reduce_user d')) =
     ([\<lparr>record_id = example_id doc, data = example_text doc, label = concat (values_of d'),
        annotation_relations = concat (values_of d), user = ''all'', metadata = meta doc\<rparr>],
      None)"
  by (simp add: reduce_user_def)

lemma text_doc_error:
  "annotation_relations_per_user repo db = Inl e \<Longrightarrow> text_doc repo db p doc = ([], Some e)"
  by (simp add: text_doc_def)

lemma text_doc_collaborative:
  "annotation_relations_per_user repo db = Inr d \<Longrightarrow> collaborative_annotation p \<Longrightarrow>
   text_doc repo db p doc =
     ([\<lparr>record_id = example_id doc, data = example_text doc,
        label = concat (values_of (label_per_user repo doc)),
        annotation_relations = concat (values_of d), user = ''all'', metadata = meta doc\<rparr>],
      None)"
  by (simp add: text_doc_def yield_items_reduce_user) (simp add: reduce_user_def len_def)

lemma text_doc_separate:
  "annotation_relations_per_user repo db = Inr (DefaultDict kvs) \<Longrightarrow>
   \<not> collaborative_annotation p \<Longrightarrow>
   text_doc repo db p doc =
     (map (\<lambda>(u, l). \<lparr>record_id = example_id doc, data = example_text doc, label = l,
                       annotation_relations = bucket kvs u, user = u, metadata = meta doc\<rparr>)
          (items (label_per_user repo doc))
      @ (if items (label_per_user repo doc) = []
         then [Record_default (example_id doc) (example_text doc) [] ''unknown'' []] else []),
      None)"
  by (simp add: text_doc_def yield_items_DefaultDict len_def)

lemma annotation_relations_per_user_DefaultDict:
  "annotation_relations_per_user repo db = Inr d \<Longrightarrow> \<exists>kvs. d = DefaultDict kvs"
  by (cases repo) (auto split: sum.splits)

lemma text_doc_ok:
  "annotation_relations_per_user repo db = Inr d \<Longrightarrow> snd (text_doc repo db p doc) = None"
  using annotation_relations_per_user_DefaultDict[of repo db d]
  by (cases "collaborative_annotation p") (auto simp: text_doc_collaborative text_doc_separate)

subsection \<open>The loop over the documents\<close>

lemma text_loop_error:
  "annotation_relations_per_user repo db = Inl e \<Longrightarrow>
   text_loop repo db p ds = ([], if ds = [] then None else Some e)"
  by (cases ds) (simp_all add: text_doc_error)

lemma text_loop_ok:
  "annotation_relations_per_user repo db = Inr d \<Longrightarrow>
   text_loop repo db p ds = (concat (map (\<lambda>doc. fst (text_doc repo db p doc)) ds), None)"
proof (induction ds)
  case Nil
  show ?case by simp
next
  case (Cons doc ds)
  from text_doc_ok[OF Cons.prems, of p doc]
  obtain rs where "text_doc repo db p doc = (rs, None)"
    by (cases "text_doc repo db p doc") auto
  with Cons show ?case by simp
qed

subsection \<open>Text classification\<close>

text \<open>
  \<^verbatim>\<open>TextRepository.list\<close> calls \<^verbatim>\<open>self.annotation_relations_per_user()\<close> for every
  document. A text-classification or sequence-to-sequence repository has no such method, so
  its export ends with \<^verbatim>\<open>AttributeError\<close> at the first document, before any record.
\<close>

lemma list_records_without_relations_method:
  assumes "repo = TextClassificationRepository \<or> repo = Seq2seqRepository"
    and "docs db p ea \<noteq> []"
  shows "list_records repo db p ea = ([], Some AttributeError)"
  using assms by (auto simp: text_loop_error)

text \<open>
  C1. A text-classification project that keeps annotators apart holds one document
  (id 1, text "Hello") with alice's category "greeting" and bob's category "salutation";
  the export is expected to yield one Record for alice and one for bob. On this input
  \<^verbatim>\<open>list()\<close> yields no Record at all: it raises \<^verbatim>\<open>AttributeError\<close>.
\<close>

theorem text_classification_scenario_raises:
  "list_records TextClassificationRepository hello_db separate_project False =
     ([], Some AttributeError)"
  by (simp add: inputs code)

text \<open>
  The file repository, whose \<^verbatim>\<open>list\<close> does not ask for relations, yields the two expected
  records on the same data (with the base name of the file as \<^verbatim>\<open>data\<close>).
\<close>

lemma file_scenario_two_records:
  "list_records FileRepository hello_db separate_project False =
     ([Record_default 1 ''hello.txt'' [Text ''greeting''] ''alice'' [(''lang'', ''en'')],
       Record_default 1 ''hello.txt'' [Text ''salutation''] ''bob'' [(''lang'', ''en'')]], None)"
  by (simp add: inputs code)

subsection \<open>The loop over the stored relations\<close>

lemma annotation_relation_resolves:
  "resolves db a \<Longrightarrow> \<exists>t. annotation_relation db a = Inr t"
  by (auto simp: resolves_def annotation_relation_def Span_get_def)

lemma annotation_relation_dangling:
  "\<not> resolves db a \<Longrightarrow> annotation_relation db a = Inl DoesNotExist"
  by (auto simp: resolves_def annotation_relation_def Span_get_def split: option.splits)

lemma annotation_relation_Inr:
  "annotation_relation db a = Inr t \<Longrightarrow>
   \<exists>s1 s2. span_objects db (annotation_id_1 a) = Some s1 \<and>
           span_objects db (annotation_id_2 a) = Some s2 \<and>
           t = (start_offset s1, span_label s1, start_offset s2, span_label s2, type_name a)"
  by (auto simp: annotation_relation_def Span_get_def split: option.splits)

lemma relations_loop_resolved:
  "\<forall>a \<in> set rels. resolves db a \<Longrightarrow> \<exists>d. relations_loop db rels acc = Inr d"
proof (induction rels arbitrary: acc)
  case Nil
  show ?case by simp
next
  case (Cons a rels)
  then obtain t where "annotation_relation db a = Inr t"
    using annotation_relation_resolves[of db a] by auto
  with Cons show ?case by simp
qed

lemma relations_loop_dangling:
  "\<exists>a \<in> set rels. \<not> resolves db a \<Longrightarrow> relations_loop db rels acc = Inl DoesNotExist"
proof (induction rels arbitrary: acc)
  case Nil
  then show ?case by simp
next
  case (Cons a rels)
  show ?case
  proof (cases "resolves db a")
    case True
    then obtain t where "annotation_relation db a = Inr t"
      using annotation_relation_resolves[of db a] by auto
    moreover from True Cons.prems have "\<exists>a \<in> set rels. \<not> resolves db a" by auto
    ultimately show ?thesis using Cons.IH by simp
  next
    case False
    then show ?thesis by (simp add: annotation_relation_dangling)
  qed
qed

lemma relations_loop_bucket:
  "relations_loop db rels acc = Inr d \<Longrightarrow>
   map Inr (bucket d u) =
     map Inr (bucket acc u) @ map (annotation_relation db) (filter (\<lambda>a. relation_user a = u) rels)"
proof (induction rels arbitrary: acc)
  case Nil
  then show ?case by simp
next
  case (Cons a rels)
  from Cons.prems obtain t where t: "annotation_relation db a = Inr t"
    by (cases "annotation_relation db a") auto
  with Cons.prems have "relations_loop db rels (append_to (relation_user a) t acc) = Inr d"
    by simp
  from Cons.IH[OF this] t show ?case
    by (simp add: bucket_append_to)
qed

lemma relations_loop_all_resolve:
  "relations_loop db rels acc = Inr d \<Longrightarrow> \<forall>a \<in> set rels. resolves db a"
  using relations_loop_dangling[of rels db acc] by auto

lemma sequence_labeling_error:
  assumes "\<exists>a \<in> set (annotation_relations_objects db). \<not> resolves db a"
  shows "annotation_relations_per_user SequenceLabelingRepository db = Inl DoesNotExist"
  using relations_loop_dangling[OF assms, of "[]"] by simp

lemma sequence_labeling_ok:
  assumes "\<forall>a \<in> set (annotation_relations_objects db). resolves db a"
  shows "\<exists>kvs. annotation_relations_per_user SequenceLabelingRepository db = Inr (DefaultDict kvs)"
  using relations_loop_resolved[OF assms, of "[]"] by auto

subsection \<open>Relations whose spans are missing\<close>

text \<open>
  C5, as the code has it. In a sequence-labeling export, when every stored relation
  resolves, no error ends the stream. When some stored relation references a span
  identifier that names no stored span and the export has at least one document to
  process, \<^verbatim>\<open>Span.objects.get\<close> raises \<^verbatim>\<open>DoesNotExist\<close> at the first document:
  the error reaches the caller and no Record, hence no relation tuple, is yielded.
\<close>

theorem dangling_relation_raises:
  "((\<forall>a \<in> set (annotation_relations_objects db). resolves db a) \<longrightarrow>
      snd (list_records SequenceLabelingRepository db p ea) = None) \<and>
   ((\<exists>a \<in> set (annotation_relations_objects db). \<not> resolves db a) \<and> docs db p ea \<noteq> [] \<longrightarrow>
      list_records SequenceLabelingRepository db p ea = ([], Some DoesNotExist))"
proof (intro conjI impI)
  assume "\<forall>a \<in> set (annotation_relations_objects db). resolves db a"
  from sequence_labeling_ok[OF this]
  obtain kvs where "annotation_relations_per_user SequenceLabelingRepository db = Inr (DefaultDict kvs)"
    by blast
  from text_loop_ok[OF this]
  show "snd (list_records SequenceLabelingRepository db p ea) = None" by simp
next
  assume a: "(\<exists>a \<in> set (annotation_relations_objects db). \<not> resolves db a) \<and> docs db p ea \<noteq> []"
  then have "annotation_relations_per_user SequenceLabelingRepository db = Inl DoesNotExist"
    using sequence_labeling_error by blast
  from text_loop_error[OF this] a
  show "list_records SequenceLabelingRepository db p ea = ([], Some DoesNotExist)" by simp
qed

text \<open>
  Both cases on the sample data: \<open>broken_db\<close> holds a document and a relation to the
  missing span 99, \<open>acme_db\<close> only a relation that resolves.
\<close>

theorem dangling_relation_raises_witness:
  "dangling \<in> set (annotation_relations_objects broken_db) \<and>
   span_objects broken_db (annotation_id_2 dangling) = None \<and>
   docs broken_db separate_project False = [acme] \<and>
   list_records SequenceLabelingRepository broken_db separate_project False
     = ([], Some DoesNotExist) \<and>
   annotation_relations_objects acme_db = [works_for] \<and>
   resolves acme_db works_for \<and>
   snd (list_records SequenceLabelingRepository acme_db separate_project False) = None"
proof -
  have 1: "\<exists>a \<in> set (annotation_relations_objects broken_db). \<not> resolves broken_db a"
    by (simp add: inputs resolves_def)
  have 2: "docs broken_db separate_project False = [acme]"
    by (simp add: inputs docs_def)
  have 3: "\<forall>a \<in> set (annotation_relations_objects acme_db). resolves acme_db a"
    by (simp add: inputs resolves_def)
  from dangling_relation_raises[of broken_db separate_project False] 1 2
  have 4: "list_records SequenceLabelingRepository broken_db separate_project False
     = ([], Some DoesNotExist)" by simp
  from dangling_relation_raises[of acme_db separate_project False] 3
  have 5: "snd (list_records SequenceLabelingRepository acme_db separate_project False) = None"
    by blast
  show ?thesis using 2 4 5 by (simp add: inputs resolves_def)
qed

text \<open>
  C5 as stated fails when there is no document to process: the relations are read inside
  the loop over the documents, so a missing span goes unnoticed and the export ends
  normally with an empty stream.
\<close>

theorem no_document_no_error_counterexample:
  "dangling \<in> set (annotation_relations_objects idle_db) \<and>
   span_objects idle_db (annotation_id_2 dangling) = None \<and>
   list_records SequenceLabelingRepository idle_db separate_project False = ([], None)"
  by (simp add: inputs code)

subsection \<open>Relations in the records of an annotator\<close>

text \<open>
  In a project that keeps annotators apart, a yielded Record with labels was produced by the
  loop over \<^verbatim>\<open>label_per_user.items()\<close>; its relations are the bucket of its user in the
  dictionary built from the stored relations.
\<close>

lemma separate_record_relations:
  assumes "\<not> collaborative_annotation p"
    and "r \<in> set (fst (list_records SequenceLabelingRepository db p ea))"
    and "label r \<noteq> []"
  obtains kvs where "relations_loop db (annotation_relations_objects db) [] = Inr kvs"
    and "annotation_relations r = bucket kvs (user r)"
proof (cases "relations_loop db (annotation_relations_objects db) []")
  case (Inl e)
  then have "annotation_relations_per_user SequenceLabelingRepository db = Inl e" by simp
  from text_loop_error[OF this] assms(2) show ?thesis by simp
next
  case (Inr kvs)
  then have ok: "annotation_relations_per_user SequenceLabelingRepository db = Inr (DefaultDict kvs)"
    by simp
  from text_loop_ok[OF ok] assms(2)
  obtain doc where "r \<in> set (fst (text_doc SequenceLabelingRepository db p doc))"
    by auto
  with assms(1,3) have "annotation_relations r = bucket kvs (user r)"
    by (auto simp: text_doc_separate[OF ok] Record_default_def split: if_splits)
  with Inr show ?thesis by (rule that)
qed

text \<open>
  C10. In a sequence-labeling export of a project that keeps annotators apart, two Records
  of the same annotator (Records carrying labels, not the fallback of a document without
  annotations) carry the same relation tuples, whatever documents they come from.
\<close>

theorem relations_same_for_every_document:
  assumes "\<not> collaborative_annotation p"
    and "r1 \<in> set (fst (list_records SequenceLabelingRepository db p ea))"
    and "r2 \<in> set (fst (list_records SequenceLabelingRepository db p ea))"
    and "label r1 \<noteq> []" and "label r2 \<noteq> []"
    and "user r1 = user r2"
  shows "annotation_relations r1 = annotation_relations r2"
proof -
  from assms(1,2,4) obtain kvs1
    where 1: "relations_loop db (annotation_relations_objects db) [] = Inr kvs1"
      "annotation_relations r1 = bucket kvs1 (user r1)"
    by (rule separate_record_relations)
  from assms(1,3,5) obtain kvs2
    where 2: "relations_loop db (annotation_relations_objects db) [] = Inr kvs2"
      "annotation_relations r2 = bucket kvs2 (user r2)"
    by (rule separate_record_relations)
  from 1 2 assms(6) show ?thesis by simp
qed

lemma acme_db_separate:
  "list_records SequenceLabelingRepository acme_db separate_project False =
     ([acme_record, memo_record], None)"
  by (simp add: inputs code acme_record_def memo_record_def)

text \<open>
  alice's Records for the documents 1 and 2 of \<open>acme_db\<close> carry the same relations.
\<close>

theorem relations_same_for_every_document_witness:
  "\<not> collaborative_annotation separate_project \<and>
   acme_record \<in> set (fst (list_records SequenceLabelingRepository acme_db separate_project False)) \<and>
   memo_record \<in> set (fst (list_records SequenceLabelingRepository acme_db separate_project False)) \<and>
   record_id acme_record \<noteq> record_id memo_record \<and>
   label acme_record \<noteq> [] \<and> label memo_record \<noteq> [] \<and>
   user acme_record = user memo_record \<and>
   annotation_relations acme_record = annotation_relations memo_record"
proof -
  have 1: "\<not> collaborative_annotation separate_project" by (simp add: inputs)
  have 2: "acme_record \<in> set (fst (list_records SequenceLabelingRepository acme_db separate_project False))"
    "memo_record \<in> set (fst (list_records SequenceLabelingRepository acme_db separate_project False))"
    unfolding acme_db_separate by simp_all
  have 3: "label acme_record \<noteq> []" "label memo_record \<noteq> []"
    "user acme_record = user memo_record" "record_id acme_record \<noteq> record_id memo_record"
    by (simp_all add: acme_record_def memo_record_def)
  from relations_same_for_every_document[OF 1 2 3(1,2,3)] 1 2 3 show ?thesis by simp
qed

subsection \<open>Collaborative projects\<close>

lemma file_example_collaborative:
  "collaborative_annotation p \<Longrightarrow>
   file_example repo p ex =
     [Record_default (example_id ex) (file_data ex)
        (concat (values_of (label_per_user repo ex))) ''all'' (meta ex)]"
  by (simp add: file_example_def reduce_user_def len_def)

lemma file_loop_collaborative:
  "collaborative_annotation p \<Longrightarrow>
   concat (map (file_example repo p) ds) =
     map (\<lambda>ex. Record_default (example_id ex) (file_data ex)
                  (concat (values_of (label_per_user repo ex))) ''all'' (meta ex)) ds"
  by (induction ds) (simp_all add: file_example_collaborative)

lemma concat_map_singleton: "concat (map (\<lambda>x. [f x]) xs) = map f xs"
  by (induction xs) auto

lemma list_records_collaborative:
  assumes "collaborative_annotation p" and "list_records repo db p ea = (records, None)"
  shows "\<exists>f. records = map f (docs db p ea) \<and>
             (\<forall>d. record_id (f d) = example_id d \<and> user (f d) = ''all'' \<and>
                  label (f d) = concat (values_of (label_per_user repo d)))"
proof -
  let ?ds = "docs db p ea"
  have file_case: ?thesis if "records = concat (map (file_example repo p) ?ds)"
  proof -
    from that assms(1) have "records = map (\<lambda>ex. Record_default (example_id ex) (file_data ex)
        (concat (values_of (label_per_user repo ex))) ''all'' (meta ex)) ?ds"
      by (simp add: file_loop_collaborative)
    then show ?thesis
      by (intro exI[of _ "\<lambda>ex. Record_default (example_id ex) (file_data ex)
        (concat (values_of (label_per_user repo ex))) ''all'' (meta ex)"])
         (simp add: Record_default_def)
  qed
  have text_case: ?thesis if loop: "text_loop repo db p ?ds = (records, None)"
  proof (cases "annotation_relations_per_user repo db")
    case (Inl e)
    from text_loop_error[OF Inl, of p ?ds] loop have "?ds = []" "records = []"
      by (auto split: if_splits)
    then show ?thesis
      by (intro exI[of _ "\<lambda>d. Record_default (example_id d) []
        (concat (values_of (label_per_user repo d))) ''all'' []"])
         (simp add: Record_default_def)
  next
    case (Inr d)
    from text_loop_ok[OF Inr, of p ?ds] loop assms(1)
    have "records = map (\<lambda>doc. \<lparr>record_id = example_id doc, data = example_text doc,
        label = concat (values_of (label_per_user repo doc)),
        annotation_relations = concat (values_of d), user = ''all'', metadata = meta doc\<rparr>) ?ds"
      by (simp add: text_doc_collaborative[OF Inr] concat_map_singleton)
    then show ?thesis
      by (intro exI[of _ "\<lambda>doc. \<lparr>record_id = example_id doc, data = example_text doc,
        label = concat (values_of (label_per_user repo doc)),
        annotation_relations = concat (values_of d), user = ''all'', metadata = meta doc\<rparr>"])
         simp
  qed
  from assms(2) file_case text_case show ?thesis by (cases repo) auto
qed

text \<open>
  C3, as the code has it. When the export of a collaborative project ends without an
  error, it yields exactly one Record for every document, in the order of the documents,
  with user \<^verbatim>\<open>all\<close>; its label is the concatenation of the annotators' label sequences
  in the order of the per-annotator dictionary, and the length of the label is the sum of
  the annotators' label counts.
\<close>

theorem collaborative_one_record_per_document:
  assumes "collaborative_annotation p" and "list_records repo db p ea = (records, None)"
  shows "map record_id records = map example_id (docs db p ea) \<and>
         map user records = map (\<lambda>d. ''all'') (docs db p ea) \<and>
         map label records = map (\<lambda>d. concat (values_of (label_per_user repo d))) (docs db p ea) \<and>
         map (\<lambda>r. length (label r)) records =
           map (\<lambda>d. sum_list (map length (values_of (label_per_user repo d)))) (docs db p ea)"
proof -
  from list_records_collaborative[OF assms] obtain f
    where f: "records = map f (docs db p ea)"
      "\<And>d. record_id (f d) = example_id d" "\<And>d. user (f d) = ''all''"
      "\<And>d. label (f d) = concat (values_of (label_per_user repo d))"
    by blast
  show ?thesis by (simp add: f length_concat comp_def)
qed

text \<open>The two documents of \<open>acme_db\<close>, pooled.\<close>

theorem collaborative_one_record_per_document_witness:
  "collaborative_annotation pooled_project \<and>
   snd (list_records SequenceLabelingRepository acme_db pooled_project False) = None \<and>
   docs acme_db pooled_project False = [acme, memo] \<and>
   map record_id (fst (list_records SequenceLabelingRepository acme_db pooled_project False)) = [1, 2] \<and>
   map user (fst (list_records SequenceLabelingRepository acme_db pooled_project False))
     = [''all'', ''all''] \<and>
   map label (fst (list_records SequenceLabelingRepository acme_db pooled_project False))
     = [[Triple 5 10 ''PER'', Triple 12 16 ''ORG''], [Triple 0 5 ''PER'']] \<and>
   map (\<lambda>r. length (label r))
       (fst (list_records SequenceLabelingRepository acme_db pooled_project False)) = [2, 1]"
proof -
  have 1: "collaborative_annotation pooled_project" by (simp add: inputs)
  have 2: "list_records SequenceLabelingRepository acme_db pooled_project False =
    (fst (list_records SequenceLabelingRepository acme_db pooled_project False), None)"
    by (simp add: inputs code)
  have 3: "docs acme_db pooled_project False = [acme, memo]" by (simp add: inputs docs_def)
  have 4: "values_of (label_per_user SequenceLabelingRepository acme) =
             [[Triple 5 10 ''PER'', Triple 12 16 ''ORG'']]"
          "values_of (label_per_user SequenceLabelingRepository memo) = [[Triple 0 5 ''PER'']]"
          "example_id acme = 1" "example_id memo = 2"
    by (simp_all add: inputs code)
  from 2 have 5: "snd (list_records SequenceLabelingRepository acme_db pooled_project False) = None"
    by (metis snd_conv)
  from collaborative_one_record_per_document[OF 1 2] 1 3 4 5 show ?thesis by simp
qed

text \<open>
  C3 as stated fails when a stored relation misses a span: the document of \<open>broken_db\<close>
  gets no Record in a collaborative sequence-labeling export, which ends with
  \<^verbatim>\<open>DoesNotExist\<close>.
\<close>

theorem collaborative_dangling_counterexample:
  "collaborative_annotation pooled_project \<and>
   docs broken_db pooled_project False = [acme] \<and>
   list_records SequenceLabelingRepository broken_db pooled_project False =
     ([], Some DoesNotExist)"
  by (simp add: inputs code)

subsection \<open>Which documents the records come from\<close>

text \<open>Every yielded Record carries the identifier of a document that the loop processed.\<close>

lemma yield_items_ids:
  "yield_items doc rels its = (rs, e) \<Longrightarrow> r \<in> set rs \<Longrightarrow> record_id r = example_id doc"
  by (induction its arbitrary: rs e) (auto split: sum.splits prod.splits)

lemma text_doc_ids:
  "text_doc repo db p doc = (rs, e) \<Longrightarrow> r \<in> set rs \<Longrightarrow> record_id r = example_id doc"
  by (auto simp: text_doc_def Let_def Record_default_def
           split: sum.splits prod.splits option.splits if_splits dest: yield_items_ids)

lemma text_loop_ids:
  "text_loop repo db p ds = (rs, e) \<Longrightarrow> r \<in> set rs \<Longrightarrow>
   \<exists>d \<in> set ds. record_id r = example_id d"
  by (induction ds arbitrary: rs e) (auto split: prod.splits option.splits dest: text_doc_ids)

lemma file_example_ids:
  "r \<in> set (file_example repo p ex) \<Longrightarrow> record_id r = example_id ex"
  by (auto simp: file_example_def Let_def Record_default_def split: if_splits)

lemma list_records_ids:
  "r \<in> set (fst (list_records repo db p ea)) \<Longrightarrow>
   \<exists>d \<in> set (docs db p ea). record_id r = example_id d"
  by (cases repo; cases "text_loop repo db p (docs db p ea)")
     (auto dest: file_example_ids text_loop_ids)

text \<open>A document that the loop processes without an error gets at least one Record.\<close>

lemma file_example_some:
  "\<exists>r \<in> set (file_example repo p ex). record_id r = example_id ex"
  by (cases "items (label_per_user repo ex)")
     (auto simp: file_example_def Let_def Record_default_def len_def reduce_user_def)

lemma text_doc_some:
  assumes "annotation_relations_per_user repo db = Inr d"
  shows "\<exists>r \<in> set (fst (text_doc repo db p doc)). record_id r = example_id doc"
proof (cases "collaborative_annotation p")
  case True
  then show ?thesis by (simp add: text_doc_collaborative[OF assms])
next
  case False
  from annotation_relations_per_user_DefaultDict[OF assms] obtain kvs
    where "annotation_relations_per_user repo db = Inr (DefaultDict kvs)"
    using assms by auto
  from text_doc_separate[OF this False, of doc] show ?thesis
    by (cases "items (label_per_user repo doc)") (auto simp: Record_default_def)
qed

lemma list_records_some:
  assumes "snd (list_records repo db p ea) = None" and "d \<in> set (docs db p ea)"
  shows "\<exists>r \<in> set (fst (list_records repo db p ea)). record_id r = example_id d"
proof -
  have file_case: "\<exists>r \<in> set (concat (map (file_example repo p) (docs db p ea))).
                     record_id r = example_id d"
    using assms(2) file_example_some[of repo p d] by auto
  have text_case: "\<exists>r \<in> set (fst (text_loop repo db p (docs db p ea))). record_id r = example_id d"
    if "snd (text_loop repo db p (docs db p ea)) = None"
  proof (cases "annotation_relations_per_user repo db")
    case (Inl e)
    from text_loop_error[OF Inl, of p "docs db p ea"] that assms(2) show ?thesis
      by (auto split: if_splits)
  next
    case (Inr dd)
    from text_doc_some[OF Inr, of p d] assms(2) show ?thesis
      by (auto simp: text_loop_ok[OF Inr])
  qed
  from assms(1) file_case text_case show ?thesis by (cases repo) auto
qed

subsection \<open>What the export reads\<close>

text \<open>
  The export reads the data source through the documents of the project, the span table
  and the relation table only.
\<close>

lemma annotation_relation_cong:
  "span_objects db = span_objects db' \<Longrightarrow> annotation_relation db a = annotation_relation db' a"
  by (simp add: annotation_relation_def Span_get_def split: sum.splits option.splits)

lemma relations_loop_cong:
  "span_objects db = span_objects db' \<Longrightarrow> relations_loop db rels acc = relations_loop db' rels acc"
  by (induction rels arbitrary: acc) (auto simp: annotation_relation_cong[of db db'] split: sum.splits)

lemma annotation_relations_per_user_cong:
  "span_objects db = span_objects db' \<Longrightarrow>
   annotation_relations_objects db = annotation_relations_objects db' \<Longrightarrow>
   annotation_relations_per_user repo db = annotation_relations_per_user repo db'"
  by (cases repo) (simp_all add: relations_loop_cong[of db db'])

lemma text_loop_cong:
  "annotation_relations_per_user repo db = annotation_relations_per_user repo db' \<Longrightarrow>
   text_loop repo db p ds = text_loop repo db' p ds"
  by (induction ds) (simp_all add: text_doc_def)

lemma list_records_cong:
  assumes "docs db p ea = docs db' p ea"
    and "span_objects db = span_objects db'"
    and "annotation_relations_objects db = annotation_relations_objects db'"
  shows "list_records repo db p ea = list_records repo db' p ea"
  using assms text_loop_cong[OF annotation_relations_per_user_cong[OF assms(2,3)], of repo p]
  by (cases repo) simp_all

subsection \<open>Documents without annotations in a collaborative project\<close>

text \<open>
  C2. A document without annotations is expected to give exactly one fallback Record with
  user \<^verbatim>\<open>unknown\<close>, an empty label and empty metadata, also in a collaborative
  project. There \<^verbatim>\<open>reduce_user\<close> has already turned the empty dictionary into
  \<^verbatim>\<open>{'all': []}\<close> when its length is tested: the file repository yields a Record with
  user \<^verbatim>\<open>all\<close> and the metadata of the example, and no fallback.
\<close>

theorem collaborative_blank_document_all:
  "collaborative_annotation pooled_project \<and>
   categories blank = [] \<and> spans blank = [] \<and> texts blank = [] \<and>
   list_records FileRepository blank_db pooled_project False =
     ([Record_default 3 ''blank.wav'' [] ''all'' [(''source'', ''web'')]], None)"
  by (simp add: inputs code)

text \<open>
  C6. Every Record whose user is not \<^verbatim>\<open>unknown\<close> is expected to carry a label that is
  not empty. For the document without annotations, a collaborative sequence-labeling export
  yields a Record with user \<^verbatim>\<open>all\<close> and the empty label.
\<close>

theorem collaborative_empty_label:
  "list_records SequenceLabelingRepository blank_db pooled_project False =
     ([\<lparr>record_id = 3, data = ''Nothing yet'', label = [], annotation_relations = [],
        user = ''all'', metadata = [(''source'', ''web'')]\<rparr>], None)"
  by (simp add: inputs code)

subsection \<open>Relations of other projects\<close>

text \<open>
  C4. Only the relations stored for the exported project are expected to contribute
  tuples. \<^verbatim>\<open>annotation_relations_per_user\<close> reads \<^verbatim>\<open>AnnotationRelations.objects.all()\<close>:
  in the export of project 1, alice's Record carries the tuple of the relation
  \<open>foreign\<close>, which belongs to project 2 and links two spans of a document of
  project 2.
\<close>

theorem foreign_relation_exported:
  "project_id separate_project = 1 \<and> relation_project foreign = 2 \<and>
   example_project branch = 2 \<and> spans branch = [span_city, span_firm] \<and>
   wide_span_table (annotation_id_1 foreign) = Some span_city \<and>
   wide_span_table (annotation_id_2 foreign) = Some span_firm \<and>
   list_records SequenceLabelingRepository shared_db separate_project False =
     ([\<lparr>record_id = 1, data = ''Meet Alice, Acme'',
        label = [Triple 5 10 ''PER'', Triple 12 16 ''ORG''],
        annotation_relations = [(5, ''PER'', 12, ''ORG'', ''works_for''),
                                (0, ''LOC'', 9, ''ORG'', ''hosts'')],
        user = ''alice'', metadata = [(''lang'', ''en'')]\<rparr>], None)"
  by (simp add: inputs code)

subsection \<open>Approved documents\<close>

lemma filter_twice: "filter P (filter Q (filter P xs)) = filter P (filter Q xs)"
  by (induction xs) auto

lemma docs_approved:
  "docs (db\<lparr>example_objects := filter (\<lambda>d. annotations_approved_by d \<noteq> None) (example_objects db)\<rparr>)
        p True = docs db p True"
  by (simp add: docs_def) (rule filter_cong[OF refl], blast)

lemma unapproved_no_record:
  assumes "distinct (map example_id (example_objects db))"
    and "d \<in> set (example_objects db)"
    and "annotations_approved_by d = None"
    and r: "r \<in> set (fst (list_records repo db p True))"
  shows "record_id r \<noteq> example_id d"
proof
  assume eq: "record_id r = example_id d"
  from list_records_ids[OF r] obtain d'
    where d': "d' \<in> set (docs db p True)" "record_id r = example_id d'" by blast
  from d'(1) have in_db: "d' \<in> set (example_objects db)"
    and approved: "annotations_approved_by d' \<noteq> None"
    by (simp_all add: docs_def)
  from assms(1) have "inj_on example_id (set (example_objects db))"
    by (simp add: distinct_map)
  from inj_onD[OF this _ in_db assms(2)] eq d'(2) have "d' = d" by simp
  with approved assms(3) show False by simp
qed

lemma approved_export_frame:
  "list_records repo db p True =
     list_records repo
       (db\<lparr>example_objects :=
             filter (\<lambda>d. annotations_approved_by d \<noteq> None) (example_objects db)\<rparr>) p True"
proof (rule list_records_cong[symmetric])
  show "docs (db\<lparr>example_objects :=
             filter (\<lambda>d. annotations_approved_by d \<noteq> None) (example_objects db)\<rparr>) p True
        = docs db p True"
    by (rule docs_approved)
qed simp_all

lemma complete_export_covers:
  assumes "snd (list_records repo db p False) = None"
    and "d \<in> set (example_objects db)"
    and "example_project d = project_id p"
  shows "\<exists>r \<in> set (fst (list_records repo db p False)). record_id r = example_id d"
proof -
  from assms(2,3) have "d \<in> set (docs db p False)" by (simp add: docs_def)
  from list_records_some[OF assms(1) this] show ?thesis .
qed

text \<open>
  C8, as the code has it. With \<^verbatim>\<open>export_approved=True\<close> a document without an
  approving reviewer contributes no Record: no yielded Record carries its identifier
  (identifiers are primary keys, hence distinct), and the export is the one of the data
  source without the documents that lack an approval. With \<^verbatim>\<open>export_approved=False\<close>,
  when the export ends without an error, every document of the project contributes at
  least one Record.
\<close>

theorem approved_export_documents:
  "(distinct (map example_id (example_objects db)) \<and> d \<in> set (example_objects db) \<and>
    annotations_approved_by d = None \<longrightarrow>
      (\<forall>r \<in> set (fst (list_records repo db p True)). record_id r \<noteq> example_id d)) \<and>
   list_records repo db p True =
     list_records repo
       (db\<lparr>example_objects :=
             filter (\<lambda>d. annotations_approved_by d \<noteq> None) (example_objects db)\<rparr>) p True \<and>
   (snd (list_records repo db p False) = None \<and> d \<in> set (example_objects db) \<and>
    example_project d = project_id p \<longrightarrow>
      (\<exists>r \<in> set (fst (list_records repo db p False)). record_id r = example_id d))"
proof (intro conjI impI ballI)
  fix r
  assume "distinct (map example_id (example_objects db)) \<and> d \<in> set (example_objects db) \<and>
    annotations_approved_by d = None"
    and "r \<in> set (fst (list_records repo db p True))"
  then show "record_id r \<noteq> example_id d"
    using unapproved_no_record[of db d r repo p] by blast
next
  show "list_records repo db p True =
     list_records repo
       (db\<lparr>example_objects :=
             filter (\<lambda>d. annotations_approved_by d \<noteq> None) (example_objects db)\<rparr>) p True"
    by (rule approved_export_frame)
next
  assume "snd (list_records repo db p False) = None \<and> d \<in> set (example_objects db) \<and>
    example_project d = project_id p"
  then show "\<exists>r \<in> set (fst (list_records repo db p False)). record_id r = example_id d"
    using complete_export_covers[of repo db p d] by blast
qed

text \<open>
  In \<open>acme_db\<close> the document \<open>acme\<close> has spans but no approval: it is absent from
  the approved export and present in the full one.
\<close>

theorem approved_export_documents_witness:
  "distinct (map example_id (example_objects acme_db)) \<and>
   acme \<in> set (example_objects acme_db) \<and> annotations_approved_by acme = None \<and>
   spans acme \<noteq> [] \<and>
   example_id acme \<notin> record_id ` set (fst (list_records SequenceLabelingRepository acme_db
                                              separate_project True)) \<and>
   snd (list_records SequenceLabelingRepository acme_db separate_project False) = None \<and>
   example_project acme = project_id separate_project \<and>
   (\<exists>r \<in> set (fst (list_records SequenceLabelingRepository acme_db separate_project False)).
      record_id r = example_id acme)"
proof -
  have 1: "distinct (map example_id (example_objects acme_db))"
    by (simp add: acme_db_def acme_def memo_def)
  have 2: "acme \<in> set (example_objects acme_db)" by (simp add: acme_db_def)
  have 3: "annotations_approved_by acme = None" "spans acme \<noteq> []"
    "example_project acme = project_id separate_project"
    by (simp_all add: acme_def separate_project_def)
  have 4: "snd (list_records SequenceLabelingRepository acme_db separate_project False) = None"
    unfolding acme_db_separate by simp
  note inst = approved_export_documents[of acme_db acme SequenceLabelingRepository separate_project]
  from inst 1 2 3(1)
  have 5: "\<forall>r \<in> set (fst (list_records SequenceLabelingRepository acme_db separate_project True)).
             record_id r \<noteq> example_id acme" by blast
  from inst 4 2 3(3)
  have 6: "\<exists>r \<in> set (fst (list_records SequenceLabelingRepository acme_db separate_project False)).
      record_id r = example_id acme" by blast
  from 5 have 7: "example_id acme \<notin> record_id ` set (fst (list_records SequenceLabelingRepository
     acme_db separate_project True))" by force
  from 1 2 3 4 6 7 show ?thesis by blast
qed

text \<open>
  C8 as stated fails when a stored relation misses a span: with
  \<^verbatim>\<open>export_approved=False\<close> the document of \<open>broken_db\<close> contributes no Record,
  the export ending with \<^verbatim>\<open>DoesNotExist\<close>.
\<close>

theorem document_without_record_counterexample:
  "acme \<in> set (example_objects broken_db) \<and>
   example_project acme = project_id separate_project \<and>
   list_records SequenceLabelingRepository broken_db separate_project False =
     ([], Some DoesNotExist)"
  by (simp add: inputs code)

subsection \<open>Grouping by annotator\<close>

text \<open>
  The dictionary built by appending to the bucket of each annotation's user has one key for
  each annotator, in the order of first occurrence, and no empty bucket.
\<close>

lemma keys_append_to:
  "map fst (append_to k v d) = (if k \<in> fst ` set d then map fst d else map fst d @ [k])"
  by (induction d) (auto split: if_splits)

lemma foldl_append_to_keys:
  "set (map fst (foldl (\<lambda>d a. append_to (key a) (val a) d) acc xs)) = fst ` set acc \<union> key ` set xs"
proof (induction xs arbitrary: acc)
  case Nil
  show ?case by simp
next
  case (Cons x xs)
  have "fst ` set (append_to (key x) (val x) acc) = insert (key x) (fst ` set acc)"
    using keys_append_to[of "key x" "val x" acc]
    by (metis (no_types, lifting) insert_absorb list.set_map set_append list.simps(15) Un_insert_right
        sup_bot.right_neutral empty_set)
  with Cons.IH[of "append_to (key x) (val x) acc"] show ?case by auto
qed

lemma foldl_append_to_distinct:
  "distinct (map fst acc) \<Longrightarrow>
   distinct (map fst (foldl (\<lambda>d a. append_to (key a) (val a) d) acc xs))"
proof (induction xs arbitrary: acc)
  case Nil
  then show ?case by simp
next
  case (Cons x xs)
  from Cons.prems have "distinct (map fst (append_to (key x) (val x) acc))"
    by (simp add: keys_append_to)
  from Cons.IH[OF this] show ?case by simp
qed

lemma foldl_append_to_bucket:
  "bucket (foldl (\<lambda>d a. append_to (key a) (val a) d) acc xs) u =
     bucket acc u @ map val (filter (\<lambda>a. key a = u) xs)"
  by (induction xs arbitrary: acc) (auto simp: bucket_append_to)

lemma foldl_append_to_Nil:
  "foldl (\<lambda>d a. append_to (key a) (val a) d) acc xs = [] \<longleftrightarrow> acc = [] \<and> xs = []"
  by (induction xs arbitrary: acc) (simp_all add: append_to_not_Nil)

lemma bucket_of_item:
  "distinct (map fst d) \<Longrightarrow> (u, l) \<in> set d \<Longrightarrow> bucket d u = l"
  by (simp add: bucket_def)

lemma bucket_Nil: "bucket [] u = []"
  by (simp add: bucket_def)

lemma label_per_user_items:
  "items (label_per_user repo ex) =
     foldl (\<lambda>d a. append_to (fst a) (snd a) d) [] (annotations_of repo ex)"
  by (cases repo)
     (simp_all add: label_per_user_categories_def label_per_user_texts_def
        label_per_user_spans_def foldl_map)

lemma label_per_user_distinct: "distinct (map fst (items (label_per_user repo ex)))"
  by (simp add: label_per_user_items foldl_append_to_distinct)

lemma label_per_user_keys:
  "fst ` set (items (label_per_user repo ex)) = fst ` set (annotations_of repo ex)"
  using foldl_append_to_keys[of fst snd "[]" "annotations_of repo ex"]
  by (simp add: label_per_user_items)

lemma label_per_user_Nil:
  "items (label_per_user repo ex) = [] \<longleftrightarrow> annotations_of repo ex = []"
  by (simp add: label_per_user_items foldl_append_to_Nil)

lemma label_per_user_item:
  assumes "(u, l) \<in> set (items (label_per_user repo ex))"
  shows "l = map snd (filter (\<lambda>a. fst a = u) (annotations_of repo ex))" and "l \<noteq> []"
proof -
  from bucket_of_item[OF label_per_user_distinct assms]
  have "l = bucket (items (label_per_user repo ex)) u" by simp
  also have "\<dots> = map snd (filter (\<lambda>a. fst a = u) (annotations_of repo ex))"
    by (simp add: label_per_user_items foldl_append_to_bucket bucket_Nil)
  finally show l: "l = map snd (filter (\<lambda>a. fst a = u) (annotations_of repo ex))" .
  from assms have "u \<in> fst ` set (items (label_per_user repo ex))" by force
  then have "u \<in> fst ` set (annotations_of repo ex)" by (simp only: label_per_user_keys)
  then have "filter (\<lambda>a. fst a = u) (annotations_of repo ex) \<noteq> []"
    by (auto simp: filter_empty_conv)
  with l show "l \<noteq> []" by simp
qed


lemma file_example_separate:
  "\<not> collaborative_annotation p \<Longrightarrow>
   file_example repo p ex =
     (if annotations_of repo ex = []
      then [Record_default (example_id ex) (file_data ex) [] ''unknown'' []]
      else map (\<lambda>(u, l). Record_default (example_id ex) (file_data ex) l u (meta ex))
               (items (label_per_user repo ex)))"
  using label_per_user_Nil[of repo ex] by (auto simp: file_example_def len_def)

lemma text_doc_separate':
  "annotation_relations_per_user repo db = Inr (DefaultDict kvs) \<Longrightarrow>
   \<not> collaborative_annotation p \<Longrightarrow>
   fst (text_doc repo db p doc) =
     (if annotations_of repo doc = []
      then [Record_default (example_id doc) (example_text doc) [] ''unknown'' []]
      else map (\<lambda>(u, l). \<lparr>record_id = example_id doc, data = example_text doc, label = l,
                           annotation_relations = bucket kvs u, user = u, metadata = meta doc\<rparr>)
               (items (label_per_user repo doc)))"
  using label_per_user_Nil[of repo doc] by (auto simp: text_doc_separate)

lemma user_of_file_records:
  "map user (map (\<lambda>(u, l). Record_default i d l u m) its) = map fst its"
  by (induction its) (auto simp: Record_default_def)

lemma label_of_file_records:
  "map label (map (\<lambda>(u, l). Record_default i d l u m) its) = map snd its"
  by (induction its) (auto simp: Record_default_def)

lemma user_of_text_records:
  "map user (map (\<lambda>(u, l). \<lparr>record_id = i, data = d, label = l,
                              annotation_relations = f u, user = u, metadata = m\<rparr>) its)
   = map fst its"
  by (induction its) auto

lemma label_of_text_records:
  "map label (map (\<lambda>(u, l). \<lparr>record_id = i, data = d, label = l,
                               annotation_relations = f u, user = u, metadata = m\<rparr>) its)
   = map snd its"
  by (induction its) auto

text \<open>
  Where annotators are kept apart and the relations can be read, an annotated document gets
  one Record for each of its annotators, holding that annotator's label values in retrieval
  order; a document without annotations gets the fallback Record alone.
\<close>

lemma file_example_per_annotator:
  assumes "\<not> collaborative_annotation p" and "annotations_of repo ex \<noteq> []"
  shows "distinct (map user (file_example repo p ex))"
    and "set (map user (file_example repo p ex)) = fst ` set (annotations_of repo ex)"
    and "length (file_example repo p ex) = card (fst ` set (annotations_of repo ex))"
    and "r \<in> set (file_example repo p ex) \<Longrightarrow>
         label r = map snd (filter (\<lambda>a. fst a = user r) (annotations_of repo ex))"
proof -
  let ?its = "items (label_per_user repo ex)"
  have recs: "file_example repo p ex =
    map (\<lambda>(u, l). Record_default (example_id ex) (file_data ex) l u (meta ex)) ?its"
    using assms by (simp add: file_example_separate)
  have users: "map user (file_example repo p ex) = map fst ?its"
    unfolding recs by (rule user_of_file_records)
  show d: "distinct (map user (file_example repo p ex))"
    unfolding users by (rule label_per_user_distinct)
  show s: "set (map user (file_example repo p ex)) = fst ` set (annotations_of repo ex)"
    unfolding users using label_per_user_keys[of repo ex] by simp
  from distinct_card[OF d] s
  show "length (file_example repo p ex) = card (fst ` set (annotations_of repo ex))" by simp
  assume "r \<in> set (file_example repo p ex)"
  then obtain u l where "(u, l) \<in> set ?its" "user r = u" "label r = l"
    unfolding recs by (auto simp: Record_default_def)
  with label_per_user_item(1)[of u l repo ex]
  show "label r = map snd (filter (\<lambda>a. fst a = user r) (annotations_of repo ex))" by simp
qed

lemma text_doc_per_annotator:
  assumes "annotation_relations_per_user repo db = Inr d"
    and "\<not> collaborative_annotation p" and "annotations_of repo doc \<noteq> []"
  shows "distinct (map user (fst (text_doc repo db p doc)))"
    and "set (map user (fst (text_doc repo db p doc))) = fst ` set (annotations_of repo doc)"
    and "length (fst (text_doc repo db p doc)) = card (fst ` set (annotations_of repo doc))"
    and "r \<in> set (fst (text_doc repo db p doc)) \<Longrightarrow>
         label r = map snd (filter (\<lambda>a. fst a = user r) (annotations_of repo doc))"
proof -
  let ?its = "items (label_per_user repo doc)"
  from annotation_relations_per_user_DefaultDict[OF assms(1)] assms(1) obtain kvs
    where ok: "annotation_relations_per_user repo db = Inr (DefaultDict kvs)" by auto
  have recs: "fst (text_doc repo db p doc) =
    map (\<lambda>(u, l). \<lparr>record_id = example_id doc, data = example_text doc, label = l,
                           annotation_relations = bucket kvs u, user = u, metadata = meta doc\<rparr>)
        ?its"
    using assms(2,3) by (simp add: text_doc_separate'[OF ok])
  have users: "map user (fst (text_doc repo db p doc)) = map fst ?its"
    unfolding recs by (rule user_of_text_records)
  show d: "distinct (map user (fst (text_doc repo db p doc)))"
    unfolding users by (rule label_per_user_distinct)
  show s: "set (map user (fst (text_doc repo db p doc))) = fst ` set (annotations_of repo doc)"
    unfolding users using label_per_user_keys[of repo doc] by simp
  from distinct_card[OF d] s
  show "length (fst (text_doc repo db p doc)) = card (fst ` set (annotations_of repo doc))"
    by simp
  assume "r \<in> set (fst (text_doc repo db p doc))"
  then obtain u l where "(u, l) \<in> set ?its" "user r = u" "label r = l"
    unfolding recs by auto
  with label_per_user_item(1)[of u l repo doc]
  show "label r = map snd (filter (\<lambda>a. fst a = user r) (annotations_of repo doc))" by simp
qed

text \<open>
  Where annotators are kept apart, only the fallback Record has an empty label.
\<close>

lemma separate_records_labelled:
  assumes "\<not> collaborative_annotation p"
    and "r \<in> set (fst (list_records repo db p ea))"
    and "user r \<noteq> ''unknown''"
  shows "label r \<noteq> []"
proof -
  have file_case: "label r \<noteq> []" if "r \<in> set (file_example repo p ex)" for ex
    using that assms(1,3) label_per_user_item(2)[of _ _ repo ex]
    by (auto simp: file_example_separate Record_default_def split: if_splits)
  have text_case: "label r \<noteq> []" if r: "r \<in> set (fst (text_loop repo db p (docs db p ea)))"
  proof (cases "annotation_relations_per_user repo db")
    case (Inl e)
    from text_loop_error[OF Inl, of p "docs db p ea"] r show ?thesis by simp
  next
    case (Inr d)
    from annotation_relations_per_user_DefaultDict[OF Inr] Inr obtain kvs
      where ok: "annotation_relations_per_user repo db = Inr (DefaultDict kvs)" by auto
    from text_loop_ok[OF ok, of p "docs db p ea"] r
    obtain doc where "r \<in> set (fst (text_doc repo db p doc))" by auto
    with assms(1,3) label_per_user_item(2)[of _ _ repo doc] show ?thesis
      by (auto simp: text_doc_separate'[OF ok] Record_default_def split: if_splits)
  qed
  from assms(2) file_case text_case show ?thesis by (cases repo) auto
qed

subsection \<open>Relations in the export\<close>

lemma first_occurrences_snoc:
  "first_occurrences (xs @ [k]) =
     (if k \<in> set xs then first_occurrences xs else first_occurrences xs @ [k])"
  by (simp add: first_occurrences_def)

lemma set_first_occurrences: "set (first_occurrences xs) = set xs"
  by (simp add: first_occurrences_def)

lemma distinct_first_occurrences: "distinct (first_occurrences xs)"
  by (simp add: first_occurrences_def)

lemma relations_loop_keys:
  "relations_loop db rels acc = Inr d \<Longrightarrow> map fst acc = first_occurrences ks \<Longrightarrow>
   map fst d = first_occurrences (ks @ map relation_user rels)"
proof (induction rels arbitrary: acc ks)
  case Nil
  then show ?case by simp
next
  case (Cons a rels)
  from Cons.prems(1) obtain t where t: "annotation_relation db a = Inr t"
    by (cases "annotation_relation db a") auto
  with Cons.prems(1)
  have loop: "relations_loop db rels (append_to (relation_user a) t acc) = Inr d" by simp
  have "fst ` set acc = set ks"
    using Cons.prems(2) set_first_occurrences[of ks] by (metis list.set_map)
  then have "map fst (append_to (relation_user a) t acc) = first_occurrences (ks @ [relation_user a])"
    using Cons.prems(2) by (simp add: keys_append_to first_occurrences_snoc)
  from Cons.IH[OF loop this] show ?case by simp
qed

lemma values_by_key:
  "distinct (map fst d) \<Longrightarrow> map snd d = map (bucket d) (map fst d)"
proof (induction d)
  case Nil
  show ?case by simp
next
  case (Cons kv d)
  obtain k v where kv: "kv = (k, v)" by (cases kv)
  from Cons.prems kv have "map (bucket ((k, v) # d)) (map fst d) = map (bucket d) (map fst d)"
    by (intro map_cong) (auto simp: bucket_def)
  with Cons kv show ?case by (simp add: bucket_def)
qed

lemma relations_loop_values:
  assumes "relations_loop db rels [] = Inr d"
  shows "map Inr (concat (map snd d)) =
           map (annotation_relation db)
               (concat (map (\<lambda>u. filter (\<lambda>a. relation_user a = u) rels)
                            (first_occurrences (map relation_user rels))))"
proof -
  have keys: "map fst d = first_occurrences (map relation_user rels)"
    using relations_loop_keys[OF assms, of "[]"] by (simp add: first_occurrences_def)
  then have "distinct (map fst d)" by (simp add: distinct_first_occurrences)
  from values_by_key[OF this] keys
  have "map snd d = map (bucket d) (first_occurrences (map relation_user rels))" by simp
  moreover have "map Inr (bucket d u) =
      map (annotation_relation db) (filter (\<lambda>a. relation_user a = u) rels)" for u
    using relations_loop_bucket[OF assms, of u] by (simp add: bucket_Nil)
  ultimately show ?thesis by (simp add: map_concat comp_def)
qed

lemmas panel_inputs =
  span_note_def panel_def reviewed_def panel_span_table_def panel_db_def outsider_db_def

text \<open>
  C7, as the code has it. In a sequence-labeling export whose stored relations all resolve,
  no error ends the stream, and every stored relation gives the tuple (start offset of
  span 1, label text of span 1, start offset of span 2, label text of span 2, name of the
  relation type). Where annotators are kept apart, every exported document yields, for
  every annotator with a span in it, a Record of that annotator with the annotator's triples
  and with the tuples of the stored relations that the annotator owns, in retrieval order;
  and every yielded Record with labels carries exactly the tuples of its user. In a
  collaborative project every exported document yields a Record of \<^verbatim>\<open>all\<close> with the
  tuples of all stored relations, grouped by owner in the order in which the owners first
  occur.
\<close>

theorem relations_exported_per_annotator:
  assumes "\<forall>a \<in> set (annotation_relations_objects db). resolves db a"
  shows
   "snd (list_records SequenceLabelingRepository db p ea) = None \<and>
    (\<forall>a \<in> set (annotation_relations_objects db).
       \<exists>span_1 span_2.
         span_objects db (annotation_id_1 a) = Some span_1 \<and>
         span_objects db (annotation_id_2 a) = Some span_2 \<and>
         annotation_relation db a =
           Inr (start_offset span_1, span_label span_1,
                start_offset span_2, span_label span_2, type_name a)) \<and>
    (\<not> collaborative_annotation p \<longrightarrow>
       (\<forall>doc \<in> set (docs db p ea). \<forall>u \<in> span_user ` set (spans doc).
          \<exists>r \<in> set (fst (list_records SequenceLabelingRepository db p ea)).
            record_id r = example_id doc \<and> user r = u \<and>
            label r = map (\<lambda>s. Triple (start_offset s) (end_offset s) (span_label s))
                          (filter (\<lambda>s. span_user s = u) (spans doc)) \<and>
            map Inr (annotation_relations r) =
              map (annotation_relation db)
                  (filter (\<lambda>a. relation_user a = u) (annotation_relations_objects db))) \<and>
       (\<forall>r \<in> set (fst (list_records SequenceLabelingRepository db p ea)).
          label r \<noteq> [] \<longrightarrow>
            map Inr (annotation_relations r) =
              map (annotation_relation db)
                  (filter (\<lambda>a. relation_user a = user r) (annotation_relations_objects db)))) \<and>
    (collaborative_annotation p \<longrightarrow>
       (\<forall>doc \<in> set (docs db p ea).
          \<exists>r \<in> set (fst (list_records SequenceLabelingRepository db p ea)).
            record_id r = example_id doc \<and> user r = ''all'' \<and>
            map Inr (annotation_relations r) =
              map (annotation_relation db)
                  (concat (map (\<lambda>u. filter (\<lambda>a. relation_user a = u)
                                             (annotation_relations_objects db))
                               (first_occurrences
                                  (map relation_user (annotation_relations_objects db)))))))"
proof -
  let ?rels = "annotation_relations_objects db"
  let ?out = "fst (list_records SequenceLabelingRepository db p ea)"
  from relations_loop_resolved[OF assms, of "[]"]
  obtain kvs where loop: "relations_loop db ?rels [] = Inr kvs" by blast
  then have ok: "annotation_relations_per_user SequenceLabelingRepository db = Inr (DefaultDict kvs)"
    by simp
  have out: "list_records SequenceLabelingRepository db p ea =
    (concat (map (\<lambda>doc. fst (text_doc SequenceLabelingRepository db p doc)) (docs db p ea)), None)"
    using text_loop_ok[OF ok] by simp
  have bucket: "map Inr (bucket kvs u) =
      map (annotation_relation db) (filter (\<lambda>a. relation_user a = u) ?rels)" for u
    using relations_loop_bucket[OF loop, of u] by (simp add: bucket_Nil)
  have 1: "snd (list_records SequenceLabelingRepository db p ea) = None"
    unfolding out by simp
  have 2: "\<exists>span_1 span_2.
         span_objects db (annotation_id_1 a) = Some span_1 \<and>
         span_objects db (annotation_id_2 a) = Some span_2 \<and>
         annotation_relation db a =
           Inr (start_offset span_1, span_label span_1,
                start_offset span_2, span_label span_2, type_name a)"
    if "a \<in> set ?rels" for a
  proof -
    from that assms have "resolves db a" by blast
    from annotation_relation_resolves[OF this] obtain t where t: "annotation_relation db a = Inr t"
      by blast
    from annotation_relation_Inr[OF t] t show ?thesis by auto
  qed
  have 3: "\<exists>r \<in> set ?out.
            record_id r = example_id doc \<and> user r = u \<and>
            label r = map (\<lambda>s. Triple (start_offset s) (end_offset s) (span_label s))
                          (filter (\<lambda>s. span_user s = u) (spans doc)) \<and>
            map Inr (annotation_relations r) =
              map (annotation_relation db) (filter (\<lambda>a. relation_user a = u) ?rels)"
    if sep: "\<not> collaborative_annotation p" and doc: "doc \<in> set (docs db p ea)"
      and u: "u \<in> span_user ` set (spans doc)" for doc u
  proof -
    let ?its = "items (label_per_user SequenceLabelingRepository doc)"
    from u have ne: "annotations_of SequenceLabelingRepository doc \<noteq> []" by auto
    from u have "u \<in> fst ` set (annotations_of SequenceLabelingRepository doc)" by force
    then have "u \<in> fst ` set ?its" by (simp only: label_per_user_keys)
    then obtain l where ul: "(u, l) \<in> set ?its" by force
    let ?r = "\<lparr>record_id = example_id doc, data = example_text doc, label = l,
               annotation_relations = bucket kvs u, user = u, metadata = meta doc\<rparr>"
    from ul have "?r \<in> set (fst (text_doc SequenceLabelingRepository db p doc))"
      using ne sep by (force simp: text_doc_separate'[OF ok])
    with doc have mem: "?r \<in> set ?out" unfolding out by auto
    from label_per_user_item(1)[OF ul]
    have "l = map (\<lambda>s. Triple (start_offset s) (end_offset s) (span_label s))
                  (filter (\<lambda>s. span_user s = u) (spans doc))"
      by (simp add: filter_map comp_def)
    with mem bucket[of u] show ?thesis by (intro bexI[of _ ?r]) simp_all
  qed
  have 4: "map Inr (annotation_relations r) =
              map (annotation_relation db) (filter (\<lambda>a. relation_user a = user r) ?rels)"
    if sep: "\<not> collaborative_annotation p" and r: "r \<in> set ?out" and l: "label r \<noteq> []" for r
  proof -
    from sep r l obtain kvs'
      where "relations_loop db ?rels [] = Inr kvs'" "annotation_relations r = bucket kvs' (user r)"
      by (rule separate_record_relations)
    with loop bucket[of "user r"] show ?thesis by simp
  qed
  have 5: "\<exists>r \<in> set ?out.
            record_id r = example_id doc \<and> user r = ''all'' \<and>
            map Inr (annotation_relations r) =
              map (annotation_relation db)
                  (concat (map (\<lambda>u. filter (\<lambda>a. relation_user a = u) ?rels)
                               (first_occurrences (map relation_user ?rels))))"
    if col: "collaborative_annotation p" and doc: "doc \<in> set (docs db p ea)" for doc
  proof -
    let ?r = "\<lparr>record_id = example_id doc, data = example_text doc,
        label = concat (values_of (label_per_user SequenceLabelingRepository doc)),
        annotation_relations = concat (values_of (DefaultDict kvs)), user = ''all'',
        metadata = meta doc\<rparr>"
    from doc have mem: "?r \<in> set ?out"
      unfolding out by (auto simp: text_doc_collaborative[OF ok col])
    from relations_loop_values[OF loop]
    have "map Inr (annotation_relations ?r) =
              map (annotation_relation db)
                  (concat (map (\<lambda>u. filter (\<lambda>a. relation_user a = u) ?rels)
                               (first_occurrences (map relation_user ?rels))))"
      by (simp add: values_of_def)
    with mem show ?thesis by (intro bexI[of _ ?r]) simp_all
  qed
  from 1 2 3 4 5 show ?thesis by blast
qed

lemma map_Inr_singleton: "map Inr xs = [Inr t] \<Longrightarrow> xs = [t]"
  by (cases xs) auto

text \<open>
  The scenario of C7 in a document that bob annotated first: alice's relation
  \<open>works_for\<close> links the span at offset 5 labelled PER to the span at offset 12
  labelled ORG; alice's Record, and the Record of \<^verbatim>\<open>all\<close> in the pooled project, carry
  \<open>(5, PER, 12, ORG, works_for)\<close>.
\<close>

theorem relations_exported_per_annotator_witness:
  "annotation_relations_objects panel_db = [works_for] \<and> resolves panel_db works_for \<and>
   docs panel_db separate_project False = [panel] \<and>
   map span_user (spans panel) = [''bob'', ''alice'', ''alice''] \<and>
   \<not> collaborative_annotation separate_project \<and>
   (\<exists>r \<in> set (fst (list_records SequenceLabelingRepository panel_db separate_project False)).
      record_id r = 4 \<and> user r = ''alice'' \<and>
      label r = [Triple 5 10 ''PER'', Triple 12 16 ''ORG''] \<and>
      annotation_relations r = [(5, ''PER'', 12, ''ORG'', ''works_for'')]) \<and>
   collaborative_annotation pooled_project \<and>
   (\<exists>r \<in> set (fst (list_records SequenceLabelingRepository panel_db pooled_project False)).
      record_id r = 4 \<and> user r = ''all'' \<and>
      annotation_relations r = [(5, ''PER'', 12, ''ORG'', ''works_for'')])"
proof -
  have rels: "annotation_relations_objects panel_db = [works_for]"
    by (simp add: panel_db_def)
  have res: "resolves panel_db works_for"
    by (simp add: resolves_def panel_db_def panel_span_table_def works_for_def)
  from rels res
  have all: "\<forall>a \<in> set (annotation_relations_objects panel_db). resolves panel_db a" by simp
  have docs1: "docs panel_db separate_project False = [panel]"
    and docs2: "docs panel_db pooled_project False = [panel]"
    by (simp_all add: docs_def panel_db_def panel_def separate_project_def pooled_project_def)
  have users: "map span_user (spans panel) = [''bob'', ''alice'', ''alice'']"
    by (simp add: panel_def span_note_def span_per_def span_org_def)
  have sep: "\<not> collaborative_annotation separate_project"
    and col: "collaborative_annotation pooled_project"
    by (simp_all add: separate_project_def pooled_project_def)
  have tuple: "annotation_relation panel_db works_for = Inr (5, ''PER'', 12, ''ORG'', ''works_for'')"
    by (simp add: annotation_relation_def Span_get_def panel_db_def panel_span_table_def
          works_for_def span_per_def span_org_def)
  have owner: "relation_user works_for = ''alice''" by (simp add: works_for_def)
  have alice: "''alice'' \<in> span_user ` set (spans panel)"
    by (simp add: panel_def span_note_def span_per_def span_org_def)
  have labels: "map (\<lambda>s. Triple (start_offset s) (end_offset s) (span_label s))
                   (filter (\<lambda>s. span_user s = ''alice'') (spans panel)) =
                [Triple 5 10 ''PER'', Triple 12 16 ''ORG'']"
    by (simp add: panel_def span_note_def span_per_def span_org_def)
  have id: "example_id panel = 4" by (simp add: panel_def)
  have pmem1: "panel \<in> set (docs panel_db separate_project False)" by (simp add: docs1)
  have pmem2: "panel \<in> set (docs panel_db pooled_project False)" by (simp add: docs2)
  note i1 = relations_exported_per_annotator[OF all, of separate_project False]
  note i2 = relations_exported_per_annotator[OF all, of pooled_project False]
  from i1[THEN conjunct2, THEN conjunct2, THEN conjunct1, THEN mp, OF sep, THEN conjunct1,
          THEN bspec, OF pmem1, THEN bspec, OF alice]
  obtain r1 where r1: "r1 \<in> set (fst (list_records SequenceLabelingRepository panel_db
                                         separate_project False))"
      "record_id r1 = example_id panel" "user r1 = ''alice''"
      "label r1 = map (\<lambda>s. Triple (start_offset s) (end_offset s) (span_label s))
                   (filter (\<lambda>s. span_user s = ''alice'') (spans panel))"
      "map Inr (annotation_relations r1) =
         map (annotation_relation panel_db)
            (filter (\<lambda>a. relation_user a = ''alice'') (annotation_relations_objects panel_db))"
    by blast
  from r1(5) rels owner tuple have "map Inr (annotation_relations r1) =
      [Inr (5, ''PER'', 12, ''ORG'', ''works_for'') :: error + relation_tuple]" by simp
  then have t1: "annotation_relations r1 = [(5, ''PER'', 12, ''ORG'', ''works_for'')]"
    by (rule map_Inr_singleton)
  from i2[THEN conjunct2, THEN conjunct2, THEN conjunct2, THEN mp, OF col, THEN bspec, OF pmem2]
  obtain r2 where r2: "r2 \<in> set (fst (list_records SequenceLabelingRepository panel_db
                                         pooled_project False))"
      "record_id r2 = example_id panel" "user r2 = ''all''"
      "map Inr (annotation_relations r2) =
         map (annotation_relation panel_db)
           (concat (map (\<lambda>u. filter (\<lambda>a. relation_user a = u)
                                      (annotation_relations_objects panel_db))
                        (first_occurrences
                           (map relation_user (annotation_relations_objects panel_db)))))"
    by blast
  from r2(4) rels owner tuple have "map Inr (annotation_relations r2) =
      [Inr (5, ''PER'', 12, ''ORG'', ''works_for'') :: error + relation_tuple]"
    by (simp add: first_occurrences_def)
  then have t2: "annotation_relations r2 = [(5, ''PER'', 12, ''ORG'', ''works_for'')]"
    by (rule map_Inr_singleton)
  from r1(1,2,3,4) labels id t1
  have e1: "\<exists>r \<in> set (fst (list_records SequenceLabelingRepository panel_db separate_project False)).
      record_id r = 4 \<and> user r = ''alice'' \<and>
      label r = [Triple 5 10 ''PER'', Triple 12 16 ''ORG''] \<and>
      annotation_relations r = [(5, ''PER'', 12, ''ORG'', ''works_for'')]"
    by (intro bexI[of _ r1]) simp_all
  from r2(1,2,3) id t2
  have e2: "\<exists>r \<in> set (fst (list_records SequenceLabelingRepository panel_db pooled_project False)).
      record_id r = 4 \<and> user r = ''all'' \<and>
      annotation_relations r = [(5, ''PER'', 12, ''ORG'', ''works_for'')]"
    by (intro bexI[of _ r2]) simp_all
  show ?thesis by (intro conjI) (rule rels res docs1 users sep col e1 e2)+
qed

text \<open>
  C7 as stated fails when the owner of a relation has no span in an exported document:
  in the approved export of \<open>outsider_db\<close> only bob's document is processed, so alice
  has no Record and her relation, which resolves, is in no Record.
\<close>

theorem relation_without_record_counterexample:
  "works_for \<in> set (annotation_relations_objects outsider_db) \<and>
   relation_user works_for = ''alice'' \<and>
   annotation_relation outsider_db works_for = Inr (5, ''PER'', 12, ''ORG'', ''works_for'') \<and>
   list_records SequenceLabelingRepository outsider_db separate_project True =
     ([\<lparr>record_id = 5, data = ''Bob'', label = [Triple 0 4 ''PER''],
        annotation_relations = [], user = ''bob'', metadata = []\<rparr>], None)"
  by (simp add: inputs panel_inputs code)

end
